theory Spec2Isabelle
  imports Main
begin

section \<open>ChatHub browser client: the socket connection manager\<close>

text \<open>
  A shallow embedding of \<^verbatim>\<open>src/context/SocketContext.js\<close> (the \<^verbatim>\<open>SocketProvider\<close>
  component) and of the two message listeners of \<^verbatim>\<open>pages/Chat.js\<close> and
  \<^verbatim>\<open>pages/PrivateChat.js\<close>. The refs and React state of the provider are the fields of
  one record; every handler takes the record and returns the updated one. What the
  provider sends to the server, what it shows as a toast and what it writes with
  \<^verbatim>\<open>console.warn\<close>/\<^verbatim>\<open>console.error\<close> is appended to three lists of the record, so that
  "emits nothing" and "shows no notification" are statements about these lists.
  \<^verbatim>\<open>console.log\<close> lines are not modelled. Emoji in toast texts are left out.
\<close>

subsection \<open>Values exchanged with the transport and the user\<close>

text \<open>Payloads as they arrive: the result of parsing JSON, plus \<^verbatim>\<open>undefined\<close>.\<close>

datatype json =
    JNull
  | JUndefined
  | JBool bool
  | JNum int
  | JStr string
  | JArr "json list"
  | JObj "(string \<times> json) list"

datatype js_error = TypeError

text \<open>A string whose characters matter, as the list of its UTF-16 code units. Names of
  users and rooms are only compared and tested for being empty, and stay plain
  strings.\<close>

type_synonym code_units = "nat list"

text \<open>Events the client emits on the socket (\<^verbatim>\<open>socket.emit(name, payload)\<close>), and
  \<^verbatim>\<open>newSocket.connect()\<close>.\<close>

datatype emit_event =
    UserConnected string string      \<comment> \<open>\<^verbatim>\<open>user_connected {username, room_name}\<close>\<close>
  | Leave string string              \<comment> \<open>\<^verbatim>\<open>leave {username, room}\<close>\<close>
  | WhoIsOnline string               \<comment> \<open>\<^verbatim>\<open>who_is_online {room_name}\<close>\<close>
  | SendMessage string code_units string \<comment> \<open>\<^verbatim>\<open>send_message {username, content, room_name}\<close>\<close>
  | SocketConnect                    \<comment> \<open>\<^verbatim>\<open>newSocket.connect()\<close>\<close>

datatype toast = ToastSuccess string | ToastError string | ToastPlain string

datatype log_entry = Warn string | Error string

text \<open>The payload of \<^verbatim>\<open>user_joined\<close> and \<^verbatim>\<open>user_left\<close>: \<^verbatim>\<open>null\<close>/\<^verbatim>\<open>undefined\<close>, or an
  object whose \<^verbatim>\<open>username\<close> field is absent or a string.\<close>

datatype user_payload = NoData | UserData "string option"

subsection \<open>Timers\<close>

text \<open>The three callbacks the provider hands to \<^verbatim>\<open>setTimeout\<close> that the claims are
  about: the delayed roster request and the join-timeout reset of \<^verbatim>\<open>joinRoom\<close>, and the
  expiry of a tracked username in the \<^verbatim>\<open>user_joined\<close> handler.\<close>

datatype timer_action =
    RosterRequest string
  | JoinTimeoutReset string
  | TrackerExpiry string

record timer =
  timer_id :: nat
  due :: nat
  action :: timer_action

subsection \<open>The provider's state\<close>

record conn =
  socket :: bool                    \<comment> \<open>\<^verbatim>\<open>socketRef.current\<close> is set\<close>
  user :: "string option"           \<comment> \<open>\<^verbatim>\<open>user\<close> of the auth context, by its username\<close>
  connected :: bool                 \<comment> \<open>React state \<^verbatim>\<open>connected\<close>\<close>
  isConnecting :: bool              \<comment> \<open>\<^verbatim>\<open>isConnectingRef\<close>\<close>
  socketInitialized :: bool         \<comment> \<open>\<^verbatim>\<open>socketInitializedRef\<close>\<close>
  currentRoom :: "string option"    \<comment> \<open>\<^verbatim>\<open>currentRoomRef\<close>\<close>
  roomJoinInProgress :: bool        \<comment> \<open>\<^verbatim>\<open>roomJoinInProgressRef\<close>\<close>
  lastJoinedRoom :: "string option" \<comment> \<open>\<^verbatim>\<open>lastJoinedRoomRef\<close>\<close>
  roomJoinTimeout :: "nat option"   \<comment> \<open>\<^verbatim>\<open>roomJoinTimeoutRef\<close>: a timer handle\<close>
  joinedUsers :: "string set"       \<comment> \<open>\<^verbatim>\<open>joinedUsersRef\<close>\<close>
  onlineUsers :: "json list"        \<comment> \<open>React state \<^verbatim>\<open>onlineUsers\<close>\<close>
  timers :: "timer list"            \<comment> \<open>pending \<^verbatim>\<open>setTimeout\<close> callbacks, oldest first\<close>
  next_timer :: nat                 \<comment> \<open>the next timer handle\<close>
  now :: nat                        \<comment> \<open>the clock, in milliseconds\<close>
  emitted :: "emit_event list"
  toasts :: "toast list"
  logs :: "log_entry list"

definition emit :: "emit_event \<Rightarrow> conn \<Rightarrow> conn" where
  "emit e s = s\<lparr>emitted := emitted s @ [e]\<rparr>"

definition show_toast :: "toast \<Rightarrow> conn \<Rightarrow> conn" where
  "show_toast t s = s\<lparr>toasts := toasts s @ [t]\<rparr>"

definition console :: "log_entry \<Rightarrow> conn \<Rightarrow> conn" where
  "console l s = s\<lparr>logs := logs s @ [l]\<rparr>"

text \<open>\<^verbatim>\<open>setTimeout(f, d)\<close> queues the callback and returns its handle;
  \<^verbatim>\<open>clearTimeout(h)\<close> removes it if it is still pending.\<close>

definition setTimeout :: "timer_action \<Rightarrow> nat \<Rightarrow> conn \<Rightarrow> nat \<times> conn" where
  "setTimeout f d s =
     (next_timer s,
      s\<lparr>timers := timers s @ [\<lparr>timer_id = next_timer s, due = now s + d, action = f\<rparr>],
        next_timer := Suc (next_timer s)\<rparr>)"

definition clearTimeout :: "nat \<Rightarrow> conn \<Rightarrow> conn" where
  "clearTimeout h s = s\<lparr>timers := filter (\<lambda>tm. timer_id tm \<noteq> h) (timers s)\<rparr>"

text \<open>\<^verbatim>\<open>if (roomJoinTimeoutRef.current) clearTimeout(roomJoinTimeoutRef.current)\<close>; the
  ref keeps the handle. A handle is a positive number, so the test is on whether the
  ref was ever set.\<close>

definition clear_join_timeout :: "conn \<Rightarrow> conn" where
  "clear_join_timeout s =
     (case roomJoinTimeout s of None \<Rightarrow> s | Some h \<Rightarrow> clearTimeout h s)"

text \<open>What each callback does when it runs. The roster request tests
  \<^verbatim>\<open>socketRef.current && connected && currentRoomRef.current === roomName\<close>, where
  \<^verbatim>\<open>connected\<close> is the value \<^verbatim>\<open>joinRoom\<close> closed over, which was true when the timer was
  set.\<close>

fun fire :: "timer_action \<Rightarrow> conn \<Rightarrow> conn" where
  "fire (RosterRequest roomName) s =
     (if socket s \<and> currentRoom s = Some roomName then emit (WhoIsOnline roomName) s else s)"
| "fire (JoinTimeoutReset roomName) s = s\<lparr>roomJoinInProgress := False\<rparr>"
| "fire (TrackerExpiry username) s = s\<lparr>joinedUsers := joinedUsers s - {username}\<rparr>"

text \<open>The event loop between two events: the clock moves to \<open>t\<close> and every pending
  callback due by then runs, in the order of the due times (callbacks due at the same
  time in the order they were queued). No callback queues or cancels a timer, so the
  callbacks to run are known when the clock starts to move.\<close>

definition run_timers :: "timer list \<Rightarrow> conn \<Rightarrow> conn" where
  "run_timers tms s = fold (\<lambda>tm. fire (action tm)) tms s"

definition advance :: "nat \<Rightarrow> conn \<Rightarrow> conn" where
  "advance t s =
     (let ready = sort_key due (filter (\<lambda>tm. due tm \<le> t) (timers s));
          s1 = s\<lparr>timers := filter (\<lambda>tm. \<not> due tm \<le> t) (timers s)\<rparr>;
          s2 = run_timers ready s1
      in s2\<lparr>now := max (now s) t\<rparr>)"

subsection \<open>Connection lifecycle handlers\<close>

text \<open>\<^verbatim>\<open>newSocket.on('connect', ...)\<close>\<close>

definition on_connect :: "conn \<Rightarrow> conn" where
  "on_connect s =
     show_toast (ToastSuccess ''Connected to ChatHub!'')
       (s\<lparr>connected := True, socket := True, isConnecting := False,
          socketInitialized := True\<rparr>)"

text \<open>\<^verbatim>\<open>newSocket.on('disconnect', (reason) => ...)\<close>\<close>

definition on_disconnect :: "string \<Rightarrow> conn \<Rightarrow> conn" where
  "on_disconnect reason s =
     (let s1 = s\<lparr>connected := False, socketInitialized := False, joinedUsers := {},
                  roomJoinInProgress := False, lastJoinedRoom := None\<rparr>;
          s2 = clear_join_timeout s1
      in if reason = ''io server disconnect'' then
           emit SocketConnect (show_toast (ToastError ''Server disconnected. Reconnecting...'') s2)
         else if reason = ''io client disconnect'' then s2
         else if reason = ''ping timeout'' then
           show_toast (ToastError ''Connection timed out. Reconnecting...'') s2
         else if reason = ''transport close'' then s2
         else if reason = ''transport error'' then s2
         else if reason \<noteq> ''io client disconnect'' then
           show_toast (ToastError ''Connection lost. Attempting to reconnect...'') s2
         else s2)"

text \<open>\<^verbatim>\<open>newSocket.on('reconnect', ...)\<close>\<close>

definition on_reconnect :: "conn \<Rightarrow> conn" where
  "on_reconnect s =
     show_toast (ToastSuccess ''Reconnected to ChatHub!'')
       (s\<lparr>connected := True, socketInitialized := True, joinedUsers := {},
          roomJoinInProgress := False\<rparr>)"

text \<open>\<^verbatim>\<open>newSocket.on('connection_confirmed', ...)\<close>\<close>

definition on_connection_confirmed :: "conn \<Rightarrow> conn" where
  "on_connection_confirmed s = s\<lparr>roomJoinInProgress := False\<rparr>"

subsection \<open>Roster snapshots\<close>

text \<open>Reading a property: \<^verbatim>\<open>null\<close> and \<^verbatim>\<open>undefined\<close> throw, an object gives the field
  (the last one of that name, as \<^verbatim>\<open>JSON.parse\<close> keeps it) or \<^verbatim>\<open>undefined\<close>, and the
  names read here are no property of a boolean, a number, a string or an array.\<close>

fun get_prop :: "json \<Rightarrow> string \<Rightarrow> js_error + json" where
  "get_prop JNull k = Inl TypeError"
| "get_prop JUndefined k = Inl TypeError"
| "get_prop (JObj kvs) k =
     (case map_of (rev kvs) k of None \<Rightarrow> Inr JUndefined | Some v \<Rightarrow> Inr v)"
| "get_prop v k = Inr JUndefined"

fun truthy :: "json \<Rightarrow> bool" where
  "truthy JNull = False"
| "truthy JUndefined = False"
| "truthy (JBool b) = b"
| "truthy (JNum n) = (n \<noteq> 0)"
| "truthy (JStr s) = (s \<noteq> [])"
| "truthy v = True"

fun isArray :: "json \<Rightarrow> bool" where
  "isArray (JArr xs) = True"
| "isArray v = False"

fun elements :: "json \<Rightarrow> json list" where
  "elements (JArr xs) = xs"
| "elements v = []"

definition setOnlineUsers :: "json list \<Rightarrow> conn \<Rightarrow> conn" where
  "setOnlineUsers us s = s\<lparr>onlineUsers := us\<rparr>"

text \<open>The body of the \<^verbatim>\<open>try\<close> block of the \<^verbatim>\<open>online_users\<close> handler; \<open>Inl\<close> is an
  exception leaving the block.\<close>

definition online_users_try :: "json \<Rightarrow> conn \<Rightarrow> js_error + conn" where
  "online_users_try data s =
     (if isArray data then Inr (setOnlineUsers (elements data) s)
      else if \<not> truthy data then
        Inr (setOnlineUsers [] (console (Warn ''online_users payload format unexpected'') s))
      else
        (case get_prop data ''users'' of
           Inl e \<Rightarrow> Inl e
         | Inr us \<Rightarrow>
             if isArray us then Inr (setOnlineUsers (elements us) s)
             else Inr (setOnlineUsers []
                        (console (Warn ''online_users payload format unexpected'') s))))"

text \<open>\<^verbatim>\<open>newSocket.on('online_users', (data) => { try {...} catch (e) {...} })\<close>\<close>

definition on_online_users :: "json \<Rightarrow> conn \<Rightarrow> conn" where
  "on_online_users data s =
     (case online_users_try data s of
        Inr s' \<Rightarrow> s'
      | Inl e \<Rightarrow> setOnlineUsers [] (console (Error ''online_users handler error'') s))"

subsection \<open>Join and leave notifications\<close>

text \<open>\<^verbatim>\<open>newSocket.on('user_joined', (data) => ...)\<close>; \<open>me\<close> is \<^verbatim>\<open>user.username\<close> of the
  user the socket was opened for.\<close>

definition on_user_joined :: "string \<Rightarrow> user_payload \<Rightarrow> conn \<Rightarrow> conn" where
  "on_user_joined me data s =
     (case data of
        NoData \<Rightarrow> s
      | UserData None \<Rightarrow> s
      | UserData (Some username) \<Rightarrow>
          if username \<noteq> [] \<and> username \<noteq> me then
            (if username \<notin> joinedUsers s then
               (let s1 = show_toast (ToastSuccess (username @ '' joined the room'')) s;
                    s2 = s1\<lparr>joinedUsers := insert username (joinedUsers s1)\<rparr>
                in snd (setTimeout (TrackerExpiry username) 5000 s2))
             else s)
          else s)"

text \<open>\<^verbatim>\<open>newSocket.on('user_left', (data) => ...)\<close>\<close>

definition on_user_left :: "string \<Rightarrow> user_payload \<Rightarrow> conn \<Rightarrow> conn" where
  "on_user_left me data s =
     (case data of
        NoData \<Rightarrow> s
      | UserData None \<Rightarrow> s
      | UserData (Some username) \<Rightarrow>
          if username \<noteq> [] \<and> username \<noteq> me then
            (let s1 = show_toast (ToastPlain (username @ '' left the room'')) s
             in s1\<lparr>joinedUsers := joinedUsers s1 - {username}\<rparr>)
          else s)"

subsection \<open>Room membership\<close>

text \<open>A room name that is missing (\<^verbatim>\<open>undefined\<close>, \<^verbatim>\<open>null\<close>) is falsy like the empty string,
  and the callbacks below use \<^verbatim>\<open>roomName\<close> only behind its truthiness test: the empty
  string stands for every falsy room name. The callbacks read \<^verbatim>\<open>connected\<close> and
  \<^verbatim>\<open>user\<close> as of the latest render.\<close>

text \<open>\<^verbatim>\<open>const joinRoom = useCallback((roomName) => ...)\<close>\<close>

definition joinRoom :: "string \<Rightarrow> conn \<Rightarrow> conn" where
  "joinRoom roomName s =
     (if \<not> socket s \<or> user s = None \<or> roomName = [] \<or> \<not> connected s
          \<or> \<not> socketInitialized s then
        (let s1 = console (Warn ''Cannot join room - missing requirements'') s
         in if \<not> connected s then show_toast (ToastError ''Not connected to server'') s1
            else s1)
      else if roomJoinInProgress s \<and> lastJoinedRoom s = Some roomName then s
      else if currentRoom s = Some roomName \<and> \<not> roomJoinInProgress s then s
      else
        (let s1 = s\<lparr>roomJoinInProgress := True, lastJoinedRoom := Some roomName,
                     currentRoom := Some roomName\<rparr>;
             s2 = clear_join_timeout s1;
             s3 = emit (UserConnected (the (user s)) roomName) s2;
             s4 = snd (setTimeout (RosterRequest roomName) 1000 s3);
             (h, s5) = setTimeout (JoinTimeoutReset roomName) 3000 s4
         in s5\<lparr>roomJoinTimeout := Some h\<rparr>))"

text \<open>\<^verbatim>\<open>const leaveRoom = useCallback((roomName) => ...)\<close>\<close>

definition leaveRoom :: "string \<Rightarrow> conn \<Rightarrow> conn" where
  "leaveRoom roomName s =
     (if socket s \<and> user s \<noteq> None \<and> roomName \<noteq> [] then
        (let s1 = (if Some roomName = currentRoom s
                   then s\<lparr>roomJoinInProgress := False, currentRoom := None,
                          lastJoinedRoom := None\<rparr>
                   else s)
         in emit (Leave (the (user s)) roomName) s1)
      else s)"

subsection \<open>Sending a room message\<close>

text \<open>\<^verbatim>\<open>String.prototype.trim\<close> removes the white space and the line terminators of
  ECMAScript from both ends of the string. Which characters these are matters, so the
  content of a message is the list of its UTF-16 code units. White space is TAB (9),
  VT (11), FF (12), SP (32), NBSP (160), ZWNBSP (U+FEFF) and the other space separators
  of Unicode: U+1680, U+2000 to U+200A, U+202F, U+205F and U+3000. The line
  terminators are LF (10), CR (13), U+2028 and U+2029.\<close>

definition is_space :: "nat \<Rightarrow> bool" where
  "is_space cu \<longleftrightarrow>
     cu \<in> {9, 10, 11, 12, 13, 32, 160, 5760, 8232, 8233, 8239, 8287, 12288, 65279}
     \<or> (8192 \<le> cu \<and> cu \<le> 8202)"

definition trim :: "code_units \<Rightarrow> code_units" where
  "trim str = rev (dropWhile is_space (rev (dropWhile is_space str)))"

text \<open>\<^verbatim>\<open>const sendMessage = useCallback((roomName, content) => ...)\<close>. The content is
  \<open>None\<close> when the caller passes \<^verbatim>\<open>undefined\<close> or \<^verbatim>\<open>null\<close>. The condition is a chain of
  \<^verbatim>\<open>&&\<close>, so \<^verbatim>\<open>content.trim()\<close> is evaluated as soon as the socket and the user are there,
  and throws on a missing content; the \<^verbatim>\<open>else\<close> branch reads \<^verbatim>\<open>content?.trim()\<close>, which is
  \<^verbatim>\<open>undefined\<close> then.\<close>

definition sendMessage ::
  "string \<Rightarrow> code_units option \<Rightarrow> conn \<Rightarrow> js_error + (bool \<times> conn)" where
  "sendMessage roomName content s =
     (if socket s \<and> user s \<noteq> None \<and> content = None then Inl TypeError
      else if socket s \<and> user s \<noteq> None \<and> trim (the content) \<noteq> [] \<and> roomName \<noteq> []
              \<and> connected s \<and> socketInitialized s then
        Inr (True, emit (SendMessage (the (user s)) (trim (the content)) roomName) s)
      else
        (let s1 = console (Warn ''Cannot send message - missing requirements'') s;
             s2 = (if \<not> connected s then show_toast (ToastError ''Not connected to server'') s1
                   else if \<not> socketInitialized s then
                     show_toast (ToastError ''Socket not initialized. Please refresh the page.'') s1
                   else if (case content of None \<Rightarrow> True | Some c \<Rightarrow> trim c = []) then
                     show_toast (ToastError ''Message cannot be empty'') s1
                   else s1)
         in Inr (False, s2)))"

subsection \<open>The message listeners of the chat views\<close>

text \<open>A message identifier as it comes from the server (a number), as the view makes
  it for its own optimistic entries (a string), or missing. \<^verbatim>\<open>===\<close> on these is equality.\<close>

datatype ident = IdNum int | IdStr string | IdMissing

record message =
  msg_id :: ident
  msg_room_name :: "string option"
  msg_username :: string
  msg_content :: string
  msg_timestamp :: string
  msg_is_mod :: bool
  msg_is_system :: bool

text \<open>\<^verbatim>\<open>handleNewMessage\<close> of \<^verbatim>\<open>Chat\<close>, with the updater it passes to
  \<^verbatim>\<open>setMessages\<close> applied to the held sequence \<open>prev\<close>. The message is \<open>None\<close> for a
  \<^verbatim>\<open>null\<close> payload.\<close>

definition handleNewMessage ::
  "string \<Rightarrow> bool \<Rightarrow> message option \<Rightarrow> message list \<Rightarrow> message list" where
  "handleNewMessage decodedRoomName mounted msg prev =
     (case msg of
        None \<Rightarrow> prev
      | Some m \<Rightarrow>
          if msg_room_name m = None \<or> msg_room_name m = Some []
               \<or> msg_room_name m \<noteq> Some decodedRoomName then prev
          else if \<not> mounted then prev
          else if list_ex (\<lambda>x. msg_id x = msg_id m) prev then prev
          else prev @ [m])"

record account =
  acc_id :: int
  acc_username :: string

record private_payload =
  pm_id :: ident
  pm_from :: "string option"
  pm_to :: "string option"
  pm_content :: string
  pm_timestamp :: string
  pm_is_mod :: "bool option"

record sender =
  sender_id :: "int option"
  sender_username :: "string option"
  sender_is_mod :: bool

record private_message =
  prv_id :: ident
  prv_sender :: sender
  prv_content :: string
  prv_timestamp :: string
  prv_read :: bool

text \<open>\<^verbatim>\<open>handlePrivateMessage\<close> of \<^verbatim>\<open>PrivateChat\<close>, with its updater applied to \<open>prev\<close>.
  \<open>friend\<close> and \<open>usr\<close> are the view's \<^verbatim>\<open>friend\<close> and \<^verbatim>\<open>user\<close>, \<open>None\<close> while they are
  \<^verbatim>\<open>null\<close>; \<^verbatim>\<open>friend?.username\<close> is \<^verbatim>\<open>undefined\<close> then, and so is a missing \<^verbatim>\<open>from\<close> or
  \<^verbatim>\<open>to\<close>. Reading \<^verbatim>\<open>message.from\<close> of a \<^verbatim>\<open>null\<close> payload and \<^verbatim>\<open>user.id\<close> of a \<^verbatim>\<open>null\<close>
  user throw.\<close>

definition handlePrivateMessage ::
  "account option \<Rightarrow> account option \<Rightarrow> private_payload option \<Rightarrow> private_message list
     \<Rightarrow> js_error + private_message list" where
  "handlePrivateMessage friend usr msg prev =
     (case msg of
        None \<Rightarrow> Inl TypeError
      | Some m \<Rightarrow>
          if (pm_from m = map_option acc_username friend \<and> pm_to m = map_option acc_username usr)
               \<or> (pm_to m = map_option acc_username friend
                    \<and> pm_from m = map_option acc_username usr) then
            (if list_ex (\<lambda>x. prv_id x = pm_id m) prev then Inr prev
             else if pm_from m = map_option acc_username usr \<and> usr = None then Inl TypeError
             else
               Inr (prev @
                 [\<lparr>prv_id = pm_id m,
                   prv_sender =
                     \<lparr>sender_id = (if pm_from m = map_option acc_username usr
                                    then map_option acc_id usr else map_option acc_id friend),
                      sender_username = pm_from m,
                      sender_is_mod = (case pm_is_mod m of None \<Rightarrow> False | Some b \<Rightarrow> b)\<rparr>,
                   prv_content = pm_content m,
                   prv_timestamp = pm_timestamp m,
                   prv_read = False\<rparr>]))
          else Inr prev)"

subsection \<open>Runs of the provider\<close>

text \<open>The state right after the provider has mounted for a signed-in user and has
  created the socket: nothing is connected, joined or queued.\<close>

definition mounted_state :: "string \<Rightarrow> conn" where
  "mounted_state me =
     \<lparr>socket = False, user = Some me, connected = False, isConnecting = True,
      socketInitialized = False, currentRoom = None, roomJoinInProgress = False,
      lastJoinedRoom = None, roomJoinTimeout = None, joinedUsers = {}, onlineUsers = [],
      timers = [], next_timer = 1, now = 0, emitted = [], toasts = [], logs = []\<rparr>"

text \<open>\<^verbatim>\<open>joinRoom(roomName)\<close> called at each of the times \<open>ts\<close>, the event loop running
  in between.\<close>

definition joinRoom_at :: "string \<Rightarrow> nat list \<Rightarrow> conn \<Rightarrow> conn" where
  "joinRoom_at roomName ts s = fold (\<lambda>t s'. joinRoom roomName (advance t s')) ts s"

text \<open>A \<^verbatim>\<open>user_joined\<close> event for \<open>u\<close> arriving at time \<open>t\<close>.\<close>

definition user_joined_at :: "string \<Rightarrow> string \<Rightarrow> nat \<Rightarrow> conn \<Rightarrow> conn" where
  "user_joined_at me u t s = on_user_joined me (UserData (Some u)) (advance t s)"

text \<open>The due times of the pending expiry callbacks of a username.\<close>

definition expiries :: "string \<Rightarrow> conn \<Rightarrow> nat list" where
  "expiries u s = map due (filter (\<lambda>tm. action tm = TrackerExpiry u) (timers s))"

text \<open>\<^verbatim>\<open>joinRoom(roomName)\<close> passes its three early returns: the requirements are met,
  no join to this room is in progress, and the room is not already the current one with
  no join in progress.\<close>

definition announces :: "string \<Rightarrow> conn \<Rightarrow> bool" where
  "announces roomName s \<longleftrightarrow>
     socket s \<and> user s \<noteq> None \<and> roomName \<noteq> [] \<and> connected s \<and> socketInitialized s
     \<and> \<not> (roomJoinInProgress s \<and> lastJoinedRoom s = Some roomName)
     \<and> \<not> (currentRoom s = Some roomName \<and> \<not> roomJoinInProgress s)"

text \<open>The room-membership announcements among the emitted events, and the leave
  announcements.\<close>

fun is_join :: "emit_event \<Rightarrow> bool" where
  "is_join (UserConnected u r) = True"
| "is_join e = False"

fun is_leave :: "emit_event \<Rightarrow> bool" where
  "is_leave (Leave u r) = True"
| "is_leave e = False"

section \<open>Properties\<close>

subsection \<open>Timers and the event loop\<close>

lemmas conn_ops = emit_def show_toast_def console_def setTimeout_def clearTimeout_def
  clear_join_timeout_def

lemma fire_frame:
  "toasts (fire a s) = toasts s" "logs (fire a s) = logs s" "timers (fire a s) = timers s"
  "next_timer (fire a s) = next_timer s" "now (fire a s) = now s" "socket (fire a s) = socket s"
  "user (fire a s) = user s" "connected (fire a s) = connected s"
  "socketInitialized (fire a s) = socketInitialized s" "currentRoom (fire a s) = currentRoom s"
  "lastJoinedRoom (fire a s) = lastJoinedRoom s" "roomJoinTimeout (fire a s) = roomJoinTimeout s"
  by (cases a; simp add: emit_def)+

lemma fire_joins: "filter is_join (emitted (fire a s)) = filter is_join (emitted s)"
  by (cases a) (simp_all add: emit_def)

lemma fire_progress: "roomJoinInProgress (fire a s) \<Longrightarrow> roomJoinInProgress s"
  by (cases a) (simp_all add: emit_def split: if_splits)

lemma fire_joinedUsers:
  "joinedUsers (fire a s) = joinedUsers s - {u. a = TrackerExpiry u}"
  by (cases a) (auto simp add: emit_def)

lemma run_timers_Nil: "run_timers [] s = s"
  by (simp add: run_timers_def)

lemma run_timers_Cons: "run_timers (tm # tms) s = run_timers tms (fire (action tm) s)"
  by (simp add: run_timers_def)

lemma run_timers_frame:
  "toasts (run_timers tms s) = toasts s \<and> timers (run_timers tms s) = timers s
   \<and> next_timer (run_timers tms s) = next_timer s \<and> now (run_timers tms s) = now s
   \<and> socket (run_timers tms s) = socket s \<and> user (run_timers tms s) = user s
   \<and> connected (run_timers tms s) = connected s
   \<and> socketInitialized (run_timers tms s) = socketInitialized s
   \<and> currentRoom (run_timers tms s) = currentRoom s
   \<and> lastJoinedRoom (run_timers tms s) = lastJoinedRoom s
   \<and> roomJoinTimeout (run_timers tms s) = roomJoinTimeout s"
  by (induction tms arbitrary: s) (simp_all add: run_timers_Nil run_timers_Cons fire_frame)

lemma run_timers_joins:
  "filter is_join (emitted (run_timers tms s)) = filter is_join (emitted s)"
  by (induction tms arbitrary: s) (simp_all add: run_timers_Nil run_timers_Cons fire_joins)

lemma run_timers_progress:
  "roomJoinInProgress (run_timers tms s) \<Longrightarrow> roomJoinInProgress s"
proof (induction tms arbitrary: s)
  case Nil
  then show ?case by (simp add: run_timers_Nil)
next
  case (Cons tm tms)
  then have "roomJoinInProgress (fire (action tm) s)" by (simp add: run_timers_Cons)
  then show ?case by (rule fire_progress)
qed

lemma run_timers_joinedUsers:
  "joinedUsers (run_timers tms s) = joinedUsers s - {u. TrackerExpiry u \<in> action ` set tms}"
proof (induction tms arbitrary: s)
  case Nil
  then show ?case by (simp add: run_timers_Nil)
next
  case (Cons tm tms)
  show ?case
    unfolding run_timers_Cons Cons.IH fire_joinedUsers by auto
qed

lemma advance_run:
  "advance t s =
     (run_timers (sort_key due (filter (\<lambda>tm. due tm \<le> t) (timers s)))
        (s\<lparr>timers := filter (\<lambda>tm. \<not> due tm \<le> t) (timers s)\<rparr>))\<lparr>now := max (now s) t\<rparr>"
  by (simp add: advance_def Let_def)

lemma advance_frame:
  "toasts (advance t s) = toasts s \<and> next_timer (advance t s) = next_timer s
   \<and> socket (advance t s) = socket s \<and> user (advance t s) = user s
   \<and> connected (advance t s) = connected s
   \<and> socketInitialized (advance t s) = socketInitialized s
   \<and> currentRoom (advance t s) = currentRoom s
   \<and> lastJoinedRoom (advance t s) = lastJoinedRoom s
   \<and> roomJoinTimeout (advance t s) = roomJoinTimeout s"
  by (simp add: advance_run run_timers_frame)

lemma advance_now: "now (advance t s) = max (now s) t"
  by (simp add: advance_run)

lemma advance_timers: "timers (advance t s) = filter (\<lambda>tm. \<not> due tm \<le> t) (timers s)"
  by (simp add: advance_run run_timers_frame)

lemma advance_joins: "filter is_join (emitted (advance t s)) = filter is_join (emitted s)"
  by (simp add: advance_run run_timers_joins)

lemma advance_progress: "roomJoinInProgress (advance t s) \<Longrightarrow> roomJoinInProgress s"
proof -
  assume "roomJoinInProgress (advance t s)"
  then have "roomJoinInProgress
      (run_timers (sort_key due (filter (\<lambda>tm. due tm \<le> t) (timers s)))
        (s\<lparr>timers := filter (\<lambda>tm. \<not> due tm \<le> t) (timers s)\<rparr>))"
    by (simp add: advance_run)
  then have "roomJoinInProgress (s\<lparr>timers := filter (\<lambda>tm. \<not> due tm \<le> t) (timers s)\<rparr>)"
    by (rule run_timers_progress)
  then show ?thesis by simp
qed

lemma advance_joinedUsers:
  "joinedUsers (advance t s) =
     joinedUsers s - {u. \<exists>tm \<in> set (timers s). due tm \<le> t \<and> action tm = TrackerExpiry u}"
  by (auto simp add: advance_run run_timers_joinedUsers image_iff)

lemma expiries_advance: "expiries u (advance t s) = filter (\<lambda>d. \<not> d \<le> t) (expiries u s)"
  by (simp add: expiries_def advance_timers filter_map comp_def conj_commute)

lemma tracked_advance:
  "u \<in> joinedUsers (advance t s) \<longleftrightarrow>
     u \<in> joinedUsers s \<and> (\<forall>d \<in> set (expiries u s). \<not> d \<le> t)"
  by (auto simp add: advance_joinedUsers expiries_def)

subsection \<open>What the handlers change\<close>

lemma on_connect_fields:
  "socketInitialized (on_connect s)" "connected (on_connect s)"
  "emitted (on_connect s) = emitted s" "currentRoom (on_connect s) = currentRoom s"
  "roomJoinInProgress (on_connect s) = roomJoinInProgress s"
  "lastJoinedRoom (on_connect s) = lastJoinedRoom s"
  by (simp_all add: on_connect_def show_toast_def)

lemma on_reconnect_fields:
  "socketInitialized (on_reconnect s)" "connected (on_reconnect s)"
  "emitted (on_reconnect s) = emitted s" "currentRoom (on_reconnect s) = currentRoom s"
  "\<not> roomJoinInProgress (on_reconnect s)" "joinedUsers (on_reconnect s) = {}"
  by (simp_all add: on_reconnect_def show_toast_def)

lemma on_disconnect_fields:
  "\<not> socketInitialized (on_disconnect reason s)" "\<not> connected (on_disconnect reason s)"
  "currentRoom (on_disconnect reason s) = currentRoom s"
  "\<not> roomJoinInProgress (on_disconnect reason s)"
  "lastJoinedRoom (on_disconnect reason s) = None"
  "joinedUsers (on_disconnect reason s) = {}"
  by (simp_all add: on_disconnect_def conn_ops Let_def split: option.splits)

lemma joinRoom_emitted:
  "emitted (joinRoom A s) =
     emitted s @ (if announces A s then [UserConnected (the (user s)) A] else [])"
  by (auto simp add: joinRoom_def announces_def conn_ops Let_def split: option.splits)

lemma joinRoom_currentRoom:
  "currentRoom (joinRoom A s) = (if announces A s then Some A else currentRoom s)"
  by (auto simp add: joinRoom_def announces_def conn_ops Let_def split: option.splits)

lemma joinRoom_progress:
  "roomJoinInProgress (joinRoom A s) \<longleftrightarrow> announces A s \<or> roomJoinInProgress s"
  by (auto simp add: joinRoom_def announces_def conn_ops Let_def split: option.splits)

lemma joinRoom_lastJoinedRoom:
  "lastJoinedRoom (joinRoom A s) = (if announces A s then Some A else lastJoinedRoom s)"
  by (auto simp add: joinRoom_def announces_def conn_ops Let_def split: option.splits)

lemma joinRoom_env:
  "socket (joinRoom A s) = socket s" "user (joinRoom A s) = user s"
  "connected (joinRoom A s) = connected s"
  "socketInitialized (joinRoom A s) = socketInitialized s"
  by (simp_all add: joinRoom_def conn_ops Let_def split: option.splits)

lemma joinRoom_skipped:
  "\<not> announces A s \<Longrightarrow>
     timers (joinRoom A s) = timers s \<and> roomJoinTimeout (joinRoom A s) = roomJoinTimeout s"
  by (auto simp add: joinRoom_def announces_def conn_ops Let_def)

lemma leaveRoom_emitted:
  "emitted (leaveRoom R s) =
     emitted s @ (if socket s \<and> user s \<noteq> None \<and> R \<noteq> [] then [Leave (the (user s)) R] else [])"
  by (simp add: leaveRoom_def emit_def Let_def)

lemma truthy_get_prop: "truthy d \<Longrightarrow> \<exists>v. get_prop d k = Inr v"
  by (cases d) (auto split: option.splits)

lemma list_ex_ids: "list_ex (\<lambda>x. f x = i) xs \<longleftrightarrow> i \<in> set (map f xs)"
  by (induction xs) auto

subsection \<open>Repeated joins and repeated arrivals\<close>

lemma joinRoom_at_Cons:
  "joinRoom_at A (t # ts) s = joinRoom_at A ts (joinRoom A (advance t s))"
  by (simp add: joinRoom_at_def)

lemma joinRoom_at_settled:
  "currentRoom s = Some A \<Longrightarrow> (roomJoinInProgress s \<longrightarrow> lastJoinedRoom s = Some A) \<Longrightarrow>
   filter is_join (emitted (joinRoom_at A ts s)) = filter is_join (emitted s)"
proof (induction ts arbitrary: s)
  case Nil
  then show ?case by (simp add: joinRoom_at_def)
next
  case (Cons t ts)
  let ?a = "advance t s"
  have room: "currentRoom ?a = Some A" using Cons.prems(1) by (simp add: advance_frame)
  have pend: "roomJoinInProgress ?a \<longrightarrow> lastJoinedRoom ?a = Some A"
    using Cons.prems(2) advance_progress [of t s] by (auto simp add: advance_frame)
  have skip: "\<not> announces A ?a" using room pend by (auto simp add: announces_def)
  have room': "currentRoom (joinRoom A ?a) = Some A"
    using room by (simp add: joinRoom_currentRoom)
  have pend': "roomJoinInProgress (joinRoom A ?a) \<longrightarrow> lastJoinedRoom (joinRoom A ?a) = Some A"
    using pend skip by (simp add: joinRoom_progress joinRoom_lastJoinedRoom)
  have "filter is_join (emitted (joinRoom_at A ts (joinRoom A ?a))) =
      filter is_join (emitted (joinRoom A ?a))"
    using room' pend' by (rule Cons.IH)
  also have "\<dots> = filter is_join (emitted ?a)" using skip by (simp add: joinRoom_emitted)
  also have "\<dots> = filter is_join (emitted s)" by (rule advance_joins)
  finally show ?case by (simp add: joinRoom_at_Cons)
qed

lemma on_user_joined_new:
  assumes "u \<noteq> []" and "u \<noteq> me" and "u \<notin> joinedUsers s"
  shows "toasts (on_user_joined me (UserData (Some u)) s) =
           toasts s @ [ToastSuccess (u @ '' joined the room'')]"
    and "u \<in> joinedUsers (on_user_joined me (UserData (Some u)) s)"
    and "expiries u (on_user_joined me (UserData (Some u)) s) = expiries u s @ [now s + 5000]"
    and "now (on_user_joined me (UserData (Some u)) s) = now s"
  using assms by (simp_all add: on_user_joined_def expiries_def conn_ops Let_def)

lemma on_user_joined_tracked:
  "u \<in> joinedUsers s \<Longrightarrow> on_user_joined me (UserData (Some u)) s = s"
  by (simp add: on_user_joined_def)

lemma user_joined_at_fresh:
  assumes "u \<noteq> []" and "u \<noteq> me" and "u \<notin> joinedUsers s" and "expiries u s = []"
  shows "toasts (user_joined_at me u t s) = toasts s @ [ToastSuccess (u @ '' joined the room'')]
    \<and> u \<in> joinedUsers (user_joined_at me u t s)
    \<and> expiries u (user_joined_at me u t s) = [max (now s) t + 5000]
    \<and> now (user_joined_at me u t s) = max (now s) t"
proof -
  have n: "u \<notin> joinedUsers (advance t s)" using assms(3) by (simp add: tracked_advance)
  have e: "expiries u (advance t s) = []" using assms(4) by (simp add: expiries_advance)
  show ?thesis
    unfolding user_joined_at_def
    using on_user_joined_new [OF assms(1,2) n] e
    by (simp add: advance_frame advance_now)
qed

lemma user_joined_at_within:
  assumes "u \<in> joinedUsers s" and "expiries u s = [d]" and "t < d"
  shows "toasts (user_joined_at me u t s) = toasts s
    \<and> u \<in> joinedUsers (user_joined_at me u t s)
    \<and> expiries u (user_joined_at me u t s) = [d]
    \<and> now (user_joined_at me u t s) = max (now s) t"
proof -
  have n: "u \<in> joinedUsers (advance t s)" using assms by (simp add: tracked_advance)
  have e: "expiries u (advance t s) = [d]" using assms by (simp add: expiries_advance)
  show ?thesis
    unfolding user_joined_at_def on_user_joined_tracked [OF n]
    using n e by (simp add: advance_frame advance_now)
qed

lemma user_joined_at_after:
  assumes "u \<noteq> []" and "u \<noteq> me" and "expiries u s = [d]" and "d \<le> t"
  shows "toasts (user_joined_at me u t s) = toasts s @ [ToastSuccess (u @ '' joined the room'')]
    \<and> u \<in> joinedUsers (user_joined_at me u t s)
    \<and> expiries u (user_joined_at me u t s) = [max (now s) t + 5000]
    \<and> now (user_joined_at me u t s) = max (now s) t"
proof -
  have n: "u \<notin> joinedUsers (advance t s)" using assms(3,4) by (simp add: tracked_advance)
  have e: "expiries u (advance t s) = []" using assms(3,4) by (simp add: expiries_advance)
  show ?thesis
    unfolding user_joined_at_def
    using on_user_joined_new [OF assms(1,2) n] e
    by (simp add: advance_frame advance_now)
qed

subsection \<open>Message sequences and trimming\<close>

lemma handleNewMessage_distinct:
  "distinct (map msg_id prev) \<Longrightarrow> distinct (map msg_id (handleNewMessage r mounted msg prev))"
  by (simp add: handleNewMessage_def list_ex_ids split: option.splits)

lemma handleNewMessage_run_distinct:
  "distinct (map msg_id prev) \<Longrightarrow>
   distinct (map msg_id (fold (handleNewMessage r mounted) msgs prev))"
proof (induction msgs arbitrary: prev)
  case Nil
  then show ?case by simp
next
  case (Cons msg msgs)
  have "distinct (map msg_id (handleNewMessage r mounted msg prev))"
    using Cons.prems by (rule handleNewMessage_distinct)
  then have "distinct (map msg_id (fold (handleNewMessage r mounted) msgs
      (handleNewMessage r mounted msg prev)))"
    by (rule Cons.IH)
  then show ?case by simp
qed

lemma trim_examples: "trim [32, 32, 104, 105, 32] = [104, 105]" "trim [160] = []"
  by (simp_all add: trim_def is_space_def)

section \<open>The claims\<close>

subsection \<open>C1: what the handshake does to the initialized flag\<close>

text \<open>
  C1 says that a successful connect or reconnect marks \<^verbatim>\<open>initialized = false\<close>, joins no
  room, that the flag becomes true only after a room membership was announced, and that
  the flag gates messaging. The \<^verbatim>\<open>connect\<close> handler sets the flag to true by itself
  (the source comments the line with "Mark as initialized"): for a user who has just
  connected the flag is true although nothing was emitted.
\<close>

theorem connect_initialized_counterexample:
  "socketInitialized (on_connect (mounted_state ''carol''))
   \<and> emitted (on_connect (mounted_state ''carol'')) = []"
  by (simp add: on_connect_def mounted_state_def show_toast_def)

text \<open>
  C1 as amended: on every connect and every reconnect the provider marks the socket
  initialized (true), emits nothing and leaves the current room as it was, so it joins
  no room; a disconnect clears the flag. While the flag is false, \<^verbatim>\<open>sendMessage\<close> never
  returns true, whatever its content; called with a string content it returns false
  and emits nothing, and when the provider is connected the toast it shows is the one
  about the socket not being initialized; and \<^verbatim>\<open>joinRoom\<close> emits nothing and keeps the
  current room.
\<close>

theorem connect_marks_initialized:
  "socketInitialized (on_connect s) \<and> emitted (on_connect s) = emitted s
   \<and> currentRoom (on_connect s) = currentRoom s
   \<and> socketInitialized (on_reconnect s) \<and> emitted (on_reconnect s) = emitted s
   \<and> currentRoom (on_reconnect s) = currentRoom s
   \<and> \<not> socketInitialized (on_disconnect reason s)
   \<and> (\<not> socketInitialized s \<longrightarrow>
        sendMessage roomName content s \<noteq> Inr (True, s')
        \<and> \<not> isl (sendMessage roomName (Some c) s)
        \<and> \<not> fst (projr (sendMessage roomName (Some c) s))
        \<and> emitted (snd (projr (sendMessage roomName (Some c) s))) = emitted s
        \<and> (connected s \<longrightarrow>
             toasts (snd (projr (sendMessage roomName (Some c) s))) =
               toasts s @ [ToastError ''Socket not initialized. Please refresh the page.''])
        \<and> emitted (joinRoom roomName s) = emitted s
        \<and> currentRoom (joinRoom roomName s) = currentRoom s)"
proof -
  have never: "\<not> socketInitialized s \<Longrightarrow> sendMessage roomName content s \<noteq> Inr (True, s')"
    by (simp add: sendMessage_def Let_def)
  have gate: "\<not> socketInitialized s \<Longrightarrow>
      \<not> isl (sendMessage roomName (Some c) s)
      \<and> \<not> fst (projr (sendMessage roomName (Some c) s))
      \<and> emitted (snd (projr (sendMessage roomName (Some c) s))) = emitted s
      \<and> (connected s \<longrightarrow>
           toasts (snd (projr (sendMessage roomName (Some c) s))) =
             toasts s @ [ToastError ''Socket not initialized. Please refresh the page.''])"
    by (simp add: sendMessage_def conn_ops Let_def)
  have join: "\<not> socketInitialized s \<Longrightarrow> \<not> announces roomName s"
    by (simp add: announces_def)
  show ?thesis
    using never gate join
    by (simp add: on_connect_fields on_reconnect_fields on_disconnect_fields
        joinRoom_emitted joinRoom_currentRoom)
qed

text \<open>
  The flag alone makes the difference: carol has a socket and is connected, as the
  callbacks of the last render still see her right after a disconnect has cleared the
  flag. With the flag cleared, sending "hi" to "Chat Room 1" returns false, emits
  nothing and shows the toast about the socket, and joining the room emits nothing;
  with the flag set, the same calls send the message and announce the membership.
\<close>

theorem connect_marks_initialized_witness:
  "socket ((on_connect (mounted_state ''carol''))\<lparr>socketInitialized := False\<rparr>)
   \<and> user ((on_connect (mounted_state ''carol''))\<lparr>socketInitialized := False\<rparr>) = Some ''carol''
   \<and> connected ((on_connect (mounted_state ''carol''))\<lparr>socketInitialized := False\<rparr>)
   \<and> \<not> socketInitialized ((on_connect (mounted_state ''carol''))\<lparr>socketInitialized := False\<rparr>)
   \<and> \<not> isl (sendMessage ''Chat Room 1'' (Some [104, 105])
        ((on_connect (mounted_state ''carol''))\<lparr>socketInitialized := False\<rparr>))
   \<and> \<not> fst (projr (sendMessage ''Chat Room 1'' (Some [104, 105])
        ((on_connect (mounted_state ''carol''))\<lparr>socketInitialized := False\<rparr>)))
   \<and> emitted (snd (projr (sendMessage ''Chat Room 1'' (Some [104, 105])
        ((on_connect (mounted_state ''carol''))\<lparr>socketInitialized := False\<rparr>)))) = []
   \<and> toasts (snd (projr (sendMessage ''Chat Room 1'' (Some [104, 105])
        ((on_connect (mounted_state ''carol''))\<lparr>socketInitialized := False\<rparr>)))) =
       [ToastSuccess ''Connected to ChatHub!'',
        ToastError ''Socket not initialized. Please refresh the page.'']
   \<and> emitted (joinRoom ''Chat Room 1''
        ((on_connect (mounted_state ''carol''))\<lparr>socketInitialized := False\<rparr>)) = []
   \<and> sendMessage ''Chat Room 1'' (Some [104, 105]) (on_connect (mounted_state ''carol'')) =
       Inr (True, emit (SendMessage ''carol'' [104, 105] ''Chat Room 1'')
                    (on_connect (mounted_state ''carol'')))
   \<and> emitted (joinRoom ''Chat Room 1'' (on_connect (mounted_state ''carol''))) =
       [UserConnected ''carol'' ''Chat Room 1'']"
proof -
  let ?on = "on_connect (mounted_state ''carol'')"
  let ?off = "?on\<lparr>socketInitialized := False\<rparr>"
  have h: "\<not> socketInitialized ?off" by simp
  have c: "connected ?off" "socket ?off" "user ?off = Some ''carol''"
    by (simp_all add: on_connect_def mounted_state_def show_toast_def)
  have e: "emitted ?off = []" "toasts ?off = [ToastSuccess ''Connected to ChatHub!'']"
    by (simp_all add: on_connect_def mounted_state_def show_toast_def)
  have sent: "sendMessage ''Chat Room 1'' (Some [104, 105]) ?on =
      Inr (True, emit (SendMessage ''carol'' [104, 105] ''Chat Room 1'') ?on)"
    by (simp add: sendMessage_def on_connect_def mounted_state_def conn_ops Let_def trim_def
        is_space_def)
  have joined: "emitted (joinRoom ''Chat Room 1'' ?on) = [UserConnected ''carol'' ''Chat Room 1'']"
    by (simp add: joinRoom_def on_connect_def mounted_state_def conn_ops Let_def)
  have off: "\<not> isl (sendMessage ''Chat Room 1'' (Some [104, 105]) ?off)
      \<and> \<not> fst (projr (sendMessage ''Chat Room 1'' (Some [104, 105]) ?off))
      \<and> emitted (snd (projr (sendMessage ''Chat Room 1'' (Some [104, 105]) ?off))) = emitted ?off
      \<and> toasts (snd (projr (sendMessage ''Chat Room 1'' (Some [104, 105]) ?off))) =
           toasts ?off @ [ToastError ''Socket not initialized. Please refresh the page.'']
      \<and> emitted (joinRoom ''Chat Room 1'' ?off) = emitted ?off"
    using connect_marks_initialized [where s = ?off and roomName = "''Chat Room 1''"
        and c = "[104, 105]"] h c(1)
    by blast
  show ?thesis
    using off c h sent joined by (simp add: e)
qed

subsection \<open>C2: switching rooms while a join is pending\<close>

text \<open>
  C2 says that \<^verbatim>\<open>joinRoom(A)\<close> followed by \<^verbatim>\<open>joinRoom(B)\<close> emits exactly one leave
  announcement for \<open>A\<close> and one join announcement for \<open>B\<close>. \<^verbatim>\<open>joinRoom\<close> never emits
  \<^verbatim>\<open>leave\<close>: the two calls emit the two membership announcements and nothing else.
\<close>

theorem joinRoom_switch_counterexample:
  "emitted (joinRoom ''Chat Room 2'' (joinRoom ''Chat Room 1''
      (on_connect (mounted_state ''carol'')))) =
     [UserConnected ''carol'' ''Chat Room 1'', UserConnected ''carol'' ''Chat Room 2'']"
  by (simp add: joinRoom_def on_connect_def mounted_state_def conn_ops Let_def)

text \<open>
  C2 as amended: for rooms \<open>A \<noteq> B\<close> and a provider that meets the requirements of
  \<^verbatim>\<open>joinRoom\<close>, calling \<^verbatim>\<open>joinRoom(A)\<close> and then \<^verbatim>\<open>joinRoom(B)\<close> emits no leave announcement,
  emits exactly one join announcement for \<open>B\<close> (after the one for \<open>A\<close>, if the first
  call was not itself skipped), and afterwards the current room is \<open>B\<close>. A leave
  announcement for \<open>A\<close> is emitted only when the caller calls \<^verbatim>\<open>leaveRoom(A)\<close>.
\<close>

theorem joinRoom_switch:
  assumes "socket s" and "user s = Some u" and "connected s" and "socketInitialized s"
    and "A \<noteq> []" and "B \<noteq> []" and "A \<noteq> B"
  shows "currentRoom (joinRoom B (joinRoom A s)) = Some B
    \<and> filter is_leave (emitted (joinRoom B (joinRoom A s))) = filter is_leave (emitted s)
    \<and> emitted (joinRoom B (joinRoom A s)) =
        emitted s
        @ (if (roomJoinInProgress s \<and> lastJoinedRoom s = Some A)
               \<or> (currentRoom s = Some A \<and> \<not> roomJoinInProgress s)
           then [] else [UserConnected u A])
        @ [UserConnected u B]"
proof -
  have first: "announces A s \<longleftrightarrow>
      \<not> ((roomJoinInProgress s \<and> lastJoinedRoom s = Some A)
          \<or> (currentRoom s = Some A \<and> \<not> roomJoinInProgress s))"
    using assms by (auto simp add: announces_def)
  have second: "announces B (joinRoom A s)"
    using assms
    by (auto simp add: announces_def joinRoom_env joinRoom_progress joinRoom_lastJoinedRoom
        joinRoom_currentRoom)
  have out: "emitted (joinRoom B (joinRoom A s)) =
      emitted s @ (if announces A s then [UserConnected u A] else []) @ [UserConnected u B]"
    using second assms(2) by (simp add: joinRoom_emitted joinRoom_env)
  have room: "currentRoom (joinRoom B (joinRoom A s)) = Some B"
    using second by (simp add: joinRoom_currentRoom)
  from out first room show ?thesis by simp
qed

theorem joinRoom_switch_witness:
  "socket (on_connect (mounted_state ''carol''))
   \<and> user (on_connect (mounted_state ''carol'')) = Some ''carol''
   \<and> connected (on_connect (mounted_state ''carol''))
   \<and> socketInitialized (on_connect (mounted_state ''carol''))
   \<and> currentRoom (joinRoom ''Chat Room 2'' (joinRoom ''Chat Room 1''
        (on_connect (mounted_state ''carol'')))) = Some ''Chat Room 2''
   \<and> filter is_leave (emitted (joinRoom ''Chat Room 2'' (joinRoom ''Chat Room 1''
        (on_connect (mounted_state ''carol''))))) = []"
proof -
  have h: "socket (on_connect (mounted_state ''carol''))"
    "user (on_connect (mounted_state ''carol'')) = Some ''carol''"
    "connected (on_connect (mounted_state ''carol''))"
    "socketInitialized (on_connect (mounted_state ''carol''))"
    by (simp_all add: on_connect_def mounted_state_def show_toast_def)
  have e: "emitted (on_connect (mounted_state ''carol'')) = []"
    by (simp add: on_connect_def mounted_state_def show_toast_def)
  have r: "''Chat Room 1'' \<noteq> []" "''Chat Room 2'' \<noteq> []" "''Chat Room 1'' \<noteq> ''Chat Room 2''"
    by simp_all
  show ?thesis
    using joinRoom_switch [OF h r] h by (simp add: e)
qed

subsection \<open>C3: what a disconnect clears\<close>

text \<open>
  C3 says that a disconnect clears the transport id, the initialized flag, the current
  room, the pending room and the tracker of joined users, so that no room membership
  survives it. The \<^verbatim>\<open>disconnect\<close> handler resets \<^verbatim>\<open>lastJoinedRoomRef\<close> and
  \<^verbatim>\<open>roomJoinInProgressRef\<close> but not \<^verbatim>\<open>currentRoomRef\<close>, which the provider's cleanup does
  reset. For carol, who joined "Chat Room 1" and then lost the transport, the current
  room is still "Chat Room 1"; and when the connection is back, \<^verbatim>\<open>joinRoom("Chat Room 1")\<close>
  is skipped as "already in room", so the only announcement ever emitted is the one from
  before the disconnect.
\<close>

theorem disconnect_keeps_currentRoom:
  "currentRoom (on_disconnect ''transport close''
      (joinRoom ''Chat Room 1'' (on_connect (mounted_state ''carol'')))) = Some ''Chat Room 1''
   \<and> emitted (joinRoom ''Chat Room 1'' (on_connect (on_disconnect ''transport close''
        (joinRoom ''Chat Room 1'' (on_connect (mounted_state ''carol'')))))) =
      [UserConnected ''carol'' ''Chat Room 1'']"
  by (simp add: on_disconnect_def joinRoom_def on_connect_def mounted_state_def conn_ops Let_def)

text \<open>
  The run above is a real one: when carol calls \<^verbatim>\<open>joinRoom\<close> the first time the
  requirements of \<^verbatim>\<open>joinRoom\<close> are met and the membership is announced, and it is the
  disconnect that leaves the current room set.
\<close>

theorem disconnect_keeps_currentRoom_witness:
  "socket (on_connect (mounted_state ''carol''))
   \<and> user (on_connect (mounted_state ''carol'')) = Some ''carol''
   \<and> connected (on_connect (mounted_state ''carol''))
   \<and> socketInitialized (on_connect (mounted_state ''carol''))
   \<and> currentRoom (on_connect (mounted_state ''carol'')) = None
   \<and> currentRoom (on_disconnect ''transport close''
        (joinRoom ''Chat Room 1'' (on_connect (mounted_state ''carol'')))) \<noteq> None"
proof -
  have h: "socket (on_connect (mounted_state ''carol''))"
    "user (on_connect (mounted_state ''carol'')) = Some ''carol''"
    "connected (on_connect (mounted_state ''carol''))"
    "socketInitialized (on_connect (mounted_state ''carol''))"
    "currentRoom (on_connect (mounted_state ''carol'')) = None"
    by (simp_all add: on_connect_def mounted_state_def show_toast_def)
  show ?thesis
    using disconnect_keeps_currentRoom h by simp
qed

subsection \<open>C4: leaving a room that is not the current one\<close>

text \<open>
  C4 says that \<^verbatim>\<open>leaveRoom(R)\<close> with \<open>R\<close> not the current room is a no-op that emits no
  leave announcement. The announcement is emitted outside the test on the current room:
  carol, in "Chat Room 1", leaving "Chat Room 2" emits \<^verbatim>\<open>leave\<close> for "Chat Room 2".
\<close>

theorem leaveRoom_other_room_counterexample:
  "emitted (leaveRoom ''Chat Room 2'' (joinRoom ''Chat Room 1''
      (on_connect (mounted_state ''carol'')))) =
     [UserConnected ''carol'' ''Chat Room 1'', Leave ''carol'' ''Chat Room 2'']"
  by (simp add: leaveRoom_def joinRoom_def on_connect_def mounted_state_def conn_ops Let_def)

text \<open>
  C4 as amended: for every room name \<open>R\<close> other than the current room, \<^verbatim>\<open>leaveRoom(R)\<close>
  leaves the current room, the pending join (flag and room) and the join timer (handle
  and queue) unchanged; it still emits one leave announcement for \<open>R\<close> whenever there is
  a socket, a user and a non-empty \<open>R\<close>, and emits nothing otherwise.
\<close>

theorem leaveRoom_other_room:
  assumes "currentRoom s \<noteq> Some R"
  shows "currentRoom (leaveRoom R s) = currentRoom s
    \<and> roomJoinInProgress (leaveRoom R s) = roomJoinInProgress s
    \<and> lastJoinedRoom (leaveRoom R s) = lastJoinedRoom s
    \<and> roomJoinTimeout (leaveRoom R s) = roomJoinTimeout s
    \<and> timers (leaveRoom R s) = timers s
    \<and> emitted (leaveRoom R s) =
        emitted s @ (if socket s \<and> user s \<noteq> None \<and> R \<noteq> [] then [Leave (the (user s)) R] else [])"
proof -
  have "Some R \<noteq> currentRoom s" using assms by auto
  then have "leaveRoom R s =
      (if socket s \<and> user s \<noteq> None \<and> R \<noteq> [] then emit (Leave (the (user s)) R) s else s)"
    by (auto simp add: leaveRoom_def Let_def)
  then show ?thesis by (simp add: emit_def)
qed

text \<open>
  Carol is connected and has joined "Chat Room 1". Leaving "Chat Room 2", which is not
  her current room, keeps "Chat Room 1" as the current room with its join still pending
  and its join timer still queued, and emits the leave announcement for "Chat Room 2".
\<close>

theorem leaveRoom_other_room_witness:
  "currentRoom (joinRoom ''Chat Room 1'' (on_connect (mounted_state ''carol'')))
     = Some ''Chat Room 1''
   \<and> socket (joinRoom ''Chat Room 1'' (on_connect (mounted_state ''carol'')))
   \<and> user (joinRoom ''Chat Room 1'' (on_connect (mounted_state ''carol''))) = Some ''carol''
   \<and> currentRoom (leaveRoom ''Chat Room 2''
        (joinRoom ''Chat Room 1'' (on_connect (mounted_state ''carol'')))) = Some ''Chat Room 1''
   \<and> roomJoinInProgress (leaveRoom ''Chat Room 2''
        (joinRoom ''Chat Room 1'' (on_connect (mounted_state ''carol''))))
   \<and> lastJoinedRoom (leaveRoom ''Chat Room 2''
        (joinRoom ''Chat Room 1'' (on_connect (mounted_state ''carol'')))) = Some ''Chat Room 1''
   \<and> roomJoinTimeout (leaveRoom ''Chat Room 2''
        (joinRoom ''Chat Room 1'' (on_connect (mounted_state ''carol'')))) = Some 2
   \<and> length (timers (leaveRoom ''Chat Room 2''
        (joinRoom ''Chat Room 1'' (on_connect (mounted_state ''carol''))))) = 2
   \<and> emitted (leaveRoom ''Chat Room 2''
        (joinRoom ''Chat Room 1'' (on_connect (mounted_state ''carol'')))) =
       [UserConnected ''carol'' ''Chat Room 1'', Leave ''carol'' ''Chat Room 2'']"
proof -
  let ?s = "joinRoom ''Chat Room 1'' (on_connect (mounted_state ''carol''))"
  have f: "currentRoom ?s = Some ''Chat Room 1''" "socket ?s" "user ?s = Some ''carol''"
    "roomJoinInProgress ?s" "lastJoinedRoom ?s = Some ''Chat Room 1''"
    "roomJoinTimeout ?s = Some 2" "length (timers ?s) = 2"
    "emitted ?s = [UserConnected ''carol'' ''Chat Room 1'']"
    by (simp_all add: joinRoom_def on_connect_def mounted_state_def conn_ops Let_def)
  have h: "currentRoom ?s \<noteq> Some ''Chat Room 2''"
    by (simp add: f)
  show ?thesis
    using leaveRoom_other_room [OF h] by (simp add: f)
qed

subsection \<open>C5: joining the same room again\<close>

text \<open>
  C5: \<^verbatim>\<open>joinRoom\<close> is idempotent. A call \<^verbatim>\<open>joinRoom(A)\<close> made while a join to \<open>A\<close> is
  pending, or while \<open>A\<close> is the current room and no join is pending, emits nothing and
  changes neither the current room, the pending join nor the join timer. And when a
  first \<^verbatim>\<open>joinRoom(A)\<close> has announced the membership, any number of further calls
  \<^verbatim>\<open>joinRoom(A)\<close>, at any times \<open>ts\<close> and with the join timeout and the roster request
  running in between, add no membership announcement: exactly one is emitted in total.
\<close>

theorem joinRoom_idempotent:
  "((roomJoinInProgress s \<and> lastJoinedRoom s = Some A)
      \<or> (currentRoom s = Some A \<and> \<not> roomJoinInProgress s) \<longrightarrow>
     emitted (joinRoom A s) = emitted s
     \<and> currentRoom (joinRoom A s) = currentRoom s
     \<and> roomJoinInProgress (joinRoom A s) = roomJoinInProgress s
     \<and> lastJoinedRoom (joinRoom A s) = lastJoinedRoom s
     \<and> roomJoinTimeout (joinRoom A s) = roomJoinTimeout s
     \<and> timers (joinRoom A s) = timers s
     \<and> (socket s \<and> user s \<noteq> None \<and> A \<noteq> [] \<and> connected s \<and> socketInitialized s \<longrightarrow>
          joinRoom A s = s))
   \<and> (socket s \<and> user s = Some u \<and> A \<noteq> [] \<and> connected s \<and> socketInitialized s
       \<and> \<not> (roomJoinInProgress s \<and> lastJoinedRoom s = Some A)
       \<and> \<not> (currentRoom s = Some A \<and> \<not> roomJoinInProgress s) \<longrightarrow>
     filter is_join (emitted (joinRoom_at A ts (joinRoom A s))) =
       filter is_join (emitted s) @ [UserConnected u A])"
proof (rule conjI; rule impI)
  assume held: "(roomJoinInProgress s \<and> lastJoinedRoom s = Some A)
      \<or> (currentRoom s = Some A \<and> \<not> roomJoinInProgress s)"
  then have skip: "\<not> announces A s" by (auto simp add: announces_def)
  have same: "socket s \<and> user s \<noteq> None \<and> A \<noteq> [] \<and> connected s \<and> socketInitialized s \<longrightarrow>
      joinRoom A s = s"
    using held by (auto simp add: joinRoom_def)
  show "emitted (joinRoom A s) = emitted s
     \<and> currentRoom (joinRoom A s) = currentRoom s
     \<and> roomJoinInProgress (joinRoom A s) = roomJoinInProgress s
     \<and> lastJoinedRoom (joinRoom A s) = lastJoinedRoom s
     \<and> roomJoinTimeout (joinRoom A s) = roomJoinTimeout s
     \<and> timers (joinRoom A s) = timers s
     \<and> (socket s \<and> user s \<noteq> None \<and> A \<noteq> [] \<and> connected s \<and> socketInitialized s \<longrightarrow>
          joinRoom A s = s)"
    using joinRoom_skipped [OF skip] skip same
    by (simp add: joinRoom_emitted joinRoom_currentRoom joinRoom_progress joinRoom_lastJoinedRoom)
next
  assume h: "socket s \<and> user s = Some u \<and> A \<noteq> [] \<and> connected s \<and> socketInitialized s
       \<and> \<not> (roomJoinInProgress s \<and> lastJoinedRoom s = Some A)
       \<and> \<not> (currentRoom s = Some A \<and> \<not> roomJoinInProgress s)"
  then have go: "announces A s" by (simp add: announces_def)
  have room: "currentRoom (joinRoom A s) = Some A" using go by (simp add: joinRoom_currentRoom)
  have pend: "roomJoinInProgress (joinRoom A s) \<longrightarrow> lastJoinedRoom (joinRoom A s) = Some A"
    using go by (simp add: joinRoom_lastJoinedRoom)
  have "filter is_join (emitted (joinRoom_at A ts (joinRoom A s))) =
      filter is_join (emitted (joinRoom A s))"
    using room pend by (rule joinRoom_at_settled)
  also have "\<dots> = filter is_join (emitted s) @ [UserConnected u A]"
    using go h by (simp add: joinRoom_emitted)
  finally show "filter is_join (emitted (joinRoom_at A ts (joinRoom A s))) =
       filter is_join (emitted s) @ [UserConnected u A]" .
qed

theorem joinRoom_idempotent_witness:
  "roomJoinInProgress (joinRoom ''Chat Room 1'' (on_connect (mounted_state ''carol'')))
   \<and> lastJoinedRoom (joinRoom ''Chat Room 1'' (on_connect (mounted_state ''carol'')))
        = Some ''Chat Room 1''
   \<and> emitted (joinRoom ''Chat Room 1''
        (joinRoom ''Chat Room 1'' (on_connect (mounted_state ''carol''))))
        = emitted (joinRoom ''Chat Room 1'' (on_connect (mounted_state ''carol'')))
   \<and> filter is_join (emitted (joinRoom_at ''Chat Room 1'' [500, 1500, 4000]
        (joinRoom ''Chat Room 1'' (on_connect (mounted_state ''carol'')))))
        = [UserConnected ''carol'' ''Chat Room 1'']"
proof -
  let ?s0 = "on_connect (mounted_state ''carol'')"
  let ?s1 = "joinRoom ''Chat Room 1'' ?s0"
  have h1: "roomJoinInProgress ?s1 \<and> lastJoinedRoom ?s1 = Some ''Chat Room 1''"
    by (simp add: joinRoom_def on_connect_def mounted_state_def conn_ops Let_def)
  have h2: "socket ?s0 \<and> user ?s0 = Some ''carol'' \<and> ''Chat Room 1'' \<noteq> [] \<and> connected ?s0
      \<and> socketInitialized ?s0
      \<and> \<not> (roomJoinInProgress ?s0 \<and> lastJoinedRoom ?s0 = Some ''Chat Room 1'')
      \<and> \<not> (currentRoom ?s0 = Some ''Chat Room 1'' \<and> \<not> roomJoinInProgress ?s0)"
    by (simp add: on_connect_def mounted_state_def show_toast_def)
  have e: "emitted ?s0 = []"
    by (simp add: on_connect_def mounted_state_def show_toast_def)
  have a: "emitted (joinRoom ''Chat Room 1'' ?s1) = emitted ?s1"
    using joinRoom_idempotent [where s = "?s1" and A = "''Chat Room 1''"] h1 by blast
  have b: "filter is_join (emitted (joinRoom_at ''Chat Room 1'' [500, 1500, 4000] ?s1)) =
      filter is_join (emitted ?s0) @ [UserConnected ''carol'' ''Chat Room 1'']"
    using joinRoom_idempotent [where s = "?s0" and A = "''Chat Room 1''" and u = "''carol''"
        and ts = "[500, 1500, 4000]"] h2 by blast
  show ?thesis using h1 a b by (simp add: e)
qed

subsection \<open>C6: the five-second window of join notifications\<close>

text \<open>
  C6 says that for every username a \<^verbatim>\<open>user_joined\<close> event produces a visible
  notification. The handler tests \<^verbatim>\<open>data.username !== user.username\<close>: an event that
  carries the signed-in user's own name produces none.
\<close>

theorem user_joined_window_counterexample:
  "toasts (on_user_joined ''carol'' (UserData (Some ''carol'')) (mounted_state ''carol'')) = []"
  by (simp add: on_user_joined_def mounted_state_def)

text \<open>
  C6 as amended: for every non-empty username \<open>u\<close> other than the signed-in user's own,
  not tracked and with no expiry pending when the first event arrives, a
  \<^verbatim>\<open>user_joined\<close> event for \<open>u\<close> at time \<open>t0\<close> produces a notification; a second one at
  \<open>t1\<close>, less than 5000 ms after \<open>t0\<close>, produces none; one at \<open>t2\<close>, 5000 ms or more after
  \<open>t0\<close>, produces a second notification, however close \<open>t2\<close> is to the suppressed
  arrival \<open>t1\<close> (the window does not slide); and one at \<open>t3\<close>, less than 5000 ms after
  \<open>t2\<close>, produces none (the window restarted at \<open>t2\<close>). Timers run when they are due.
\<close>

theorem user_joined_window:
  assumes "u \<noteq> []" and "u \<noteq> me"
    and "u \<notin> joinedUsers s" and "\<forall>tm \<in> set (timers s). action tm \<noteq> TrackerExpiry u"
    and "now s \<le> t0" and "t0 \<le> t1" and "t1 < t0 + 5000"
    and "t0 + 5000 \<le> t2" and "t2 \<le> t3" and "t3 < t2 + 5000"
  shows "toasts (user_joined_at me u t0 s) =
           toasts s @ [ToastSuccess (u @ '' joined the room'')]
    \<and> toasts (user_joined_at me u t1 (user_joined_at me u t0 s)) =
           toasts (user_joined_at me u t0 s)
    \<and> toasts (user_joined_at me u t2 (user_joined_at me u t1 (user_joined_at me u t0 s))) =
           toasts (user_joined_at me u t1 (user_joined_at me u t0 s))
           @ [ToastSuccess (u @ '' joined the room'')]
    \<and> toasts (user_joined_at me u t3
          (user_joined_at me u t2 (user_joined_at me u t1 (user_joined_at me u t0 s)))) =
           toasts (user_joined_at me u t2 (user_joined_at me u t1 (user_joined_at me u t0 s)))"
proof -
  let ?s1 = "user_joined_at me u t0 s"
  let ?s2 = "user_joined_at me u t1 ?s1"
  let ?s3 = "user_joined_at me u t2 ?s2"
  have none: "expiries u s = []"
    using assms(4) by (auto simp add: expiries_def filter_empty_conv)
  have s1: "toasts ?s1 = toasts s @ [ToastSuccess (u @ '' joined the room'')]
      \<and> u \<in> joinedUsers ?s1 \<and> expiries u ?s1 = [t0 + 5000] \<and> now ?s1 = t0"
    using user_joined_at_fresh [OF assms(1,2,3) none, of t0] assms(5) by (simp add: max_def)
  have s2: "toasts ?s2 = toasts ?s1 \<and> u \<in> joinedUsers ?s2 \<and> expiries u ?s2 = [t0 + 5000]
      \<and> now ?s2 = t1"
    using user_joined_at_within [of u ?s1 "t0 + 5000" t1 me] s1 assms(6,7)
    by (simp add: max_def)
  have s3: "toasts ?s3 = toasts ?s2 @ [ToastSuccess (u @ '' joined the room'')]
      \<and> u \<in> joinedUsers ?s3 \<and> expiries u ?s3 = [t2 + 5000] \<and> now ?s3 = t2"
    using user_joined_at_after [OF assms(1,2), of ?s2 "t0 + 5000" t2] s2 assms(6,7,8)
    by (simp add: max_def)
  have s4: "toasts (user_joined_at me u t3 ?s3) = toasts ?s3"
    using user_joined_at_within [of u ?s3 "t2 + 5000" t3 me] s3 assms(10) by simp
  from s1 s2 s3 s4 show ?thesis by simp
qed

theorem user_joined_window_witness:
  "''alice'' \<noteq> [] \<and> ''alice'' \<noteq> ''carol''
   \<and> ''alice'' \<notin> joinedUsers (mounted_state ''carol'')
   \<and> timers (mounted_state ''carol'') = []
   \<and> toasts (user_joined_at ''carol'' ''alice'' 9999
        (user_joined_at ''carol'' ''alice'' 5000
          (user_joined_at ''carol'' ''alice'' 4000
            (user_joined_at ''carol'' ''alice'' 0 (mounted_state ''carol''))))) =
       [ToastSuccess ''alice joined the room'', ToastSuccess ''alice joined the room'']"
proof -
  have h: "''alice'' \<noteq> []" "''alice'' \<noteq> ''carol''"
    "''alice'' \<notin> joinedUsers (mounted_state ''carol'')"
    "\<forall>tm \<in> set (timers (mounted_state ''carol'')). action tm \<noteq> TrackerExpiry ''alice''"
    "now (mounted_state ''carol'') \<le> 0" "(0::nat) \<le> 4000" "(4000::nat) < 0 + 5000"
    "(0::nat) + 5000 \<le> 5000" "(5000::nat) \<le> 9999" "(9999::nat) < 5000 + 5000"
    by (simp_all add: mounted_state_def)
  have e: "toasts (mounted_state ''carol'') = []" "timers (mounted_state ''carol'') = []"
    by (simp_all add: mounted_state_def)
  show ?thesis
    using user_joined_window [OF h] h(1-3) by (simp add: e)
qed

subsection \<open>C7: incoming messages are deduplicated by identifier\<close>

text \<open>
  C7 says that every \<^verbatim>\<open>receive_message\<close> event whose id is not yet in the held sequence
  is appended. The listener of the chat view first tests the room of the message: a
  message with a new id that is addressed to another room is dropped.
\<close>

theorem messages_deduplicated_counterexample:
  "handleNewMessage ''Chat Room 1'' True
     (Some \<lparr>msg_id = IdNum 7, msg_room_name = Some ''Chat Room 2'', msg_username = ''dave'',
            msg_content = ''hi'', msg_timestamp = ''2024-01-01T00:00:00Z'', msg_is_mod = False,
            msg_is_system = False\<rparr>) [] = []"
  by (simp add: handleNewMessage_def)

text \<open>
  C7 as amended: a \<^verbatim>\<open>receive_message\<close> event addressed to the room on display, arriving
  while the view is mounted, leaves the held sequence unchanged when its id already
  occurs there and is appended once at the end otherwise; an event for another room, or
  one arriving when the view is not mounted, leaves the sequence unchanged. A
  \<^verbatim>\<open>receive_private_message\<close> event between the signed-in user and the friend of the
  conversation leaves the sequence unchanged when its id occurs there and otherwise
  appends one entry with that id and content. Both listeners keep the ids of the held
  sequence pairwise different, over any run of \<^verbatim>\<open>receive_message\<close> events.
\<close>

theorem messages_deduplicated:
  "(msg_room_name m = Some r \<and> r \<noteq> [] \<longrightarrow>
      handleNewMessage r True (Some m) prev =
        (if msg_id m \<in> set (map msg_id prev) then prev else prev @ [m]))
   \<and> (msg_room_name m \<noteq> Some r \<or> \<not> mounted \<longrightarrow>
        handleNewMessage r mounted (Some m) prev = prev)
   \<and> (distinct (map msg_id prev) \<longrightarrow>
        distinct (map msg_id (fold (handleNewMessage r mounted) msgs prev)))
   \<and> ((pm_from p = map_option acc_username friend \<and> pm_to p = Some (acc_username me))
        \<or> (pm_to p = map_option acc_username friend \<and> pm_from p = Some (acc_username me)) \<longrightarrow>
      \<not> isl (handlePrivateMessage friend (Some me) (Some p) pprev)
      \<and> (if pm_id p \<in> set (map prv_id pprev)
          then projr (handlePrivateMessage friend (Some me) (Some p) pprev) = pprev
          else butlast (projr (handlePrivateMessage friend (Some me) (Some p) pprev)) = pprev
             \<and> map prv_id (projr (handlePrivateMessage friend (Some me) (Some p) pprev)) =
                 map prv_id pprev @ [pm_id p]
             \<and> prv_content (last (projr (handlePrivateMessage friend (Some me) (Some p) pprev)))
                 = pm_content p))
   \<and> (distinct (map prv_id pprev) \<and> \<not> isl (handlePrivateMessage friend usr pmsg pprev) \<longrightarrow>
        distinct (map prv_id (projr (handlePrivateMessage friend usr pmsg pprev))))"
proof -
  have a: "msg_room_name m = Some r \<and> r \<noteq> [] \<longrightarrow>
      handleNewMessage r True (Some m) prev =
        (if msg_id m \<in> set (map msg_id prev) then prev else prev @ [m])"
    by (simp add: handleNewMessage_def list_ex_ids del: set_map)
  have a': "msg_room_name m \<noteq> Some r \<or> \<not> mounted \<longrightarrow>
        handleNewMessage r mounted (Some m) prev = prev"
    by (simp add: handleNewMessage_def)
  have b: "distinct (map msg_id prev) \<longrightarrow>
        distinct (map msg_id (fold (handleNewMessage r mounted) msgs prev))"
    by (simp add: handleNewMessage_run_distinct)
  have c: "(pm_from p = map_option acc_username friend \<and> pm_to p = Some (acc_username me))
        \<or> (pm_to p = map_option acc_username friend \<and> pm_from p = Some (acc_username me)) \<longrightarrow>
      \<not> isl (handlePrivateMessage friend (Some me) (Some p) pprev)
      \<and> (if pm_id p \<in> set (map prv_id pprev)
          then projr (handlePrivateMessage friend (Some me) (Some p) pprev) = pprev
          else butlast (projr (handlePrivateMessage friend (Some me) (Some p) pprev)) = pprev
             \<and> map prv_id (projr (handlePrivateMessage friend (Some me) (Some p) pprev)) =
                 map prv_id pprev @ [pm_id p]
             \<and> prv_content (last (projr (handlePrivateMessage friend (Some me) (Some p) pprev)))
                 = pm_content p)"
    by (simp add: handlePrivateMessage_def list_ex_ids del: set_map)
  have d: "distinct (map prv_id pprev) \<and> \<not> isl (handlePrivateMessage friend usr pmsg pprev) \<longrightarrow>
        distinct (map prv_id (projr (handlePrivateMessage friend usr pmsg pprev)))"
  proof (cases pmsg)
    case None
    then show ?thesis by (simp add: handlePrivateMessage_def)
  next
    case (Some q)
    then show ?thesis by (simp add: handlePrivateMessage_def list_ex_ids)
  qed
  from a a' b c d show ?thesis by blast
qed

theorem messages_deduplicated_witness:
  "handleNewMessage ''Chat Room 1'' True
     (Some \<lparr>msg_id = IdNum 7, msg_room_name = Some ''Chat Room 1'', msg_username = ''dave'',
            msg_content = ''hi'', msg_timestamp = ''t'', msg_is_mod = False,
            msg_is_system = False\<rparr>) []
     = [\<lparr>msg_id = IdNum 7, msg_room_name = Some ''Chat Room 1'', msg_username = ''dave'',
            msg_content = ''hi'', msg_timestamp = ''t'', msg_is_mod = False,
            msg_is_system = False\<rparr>]
   \<and> handleNewMessage ''Chat Room 2'' True
     (Some \<lparr>msg_id = IdNum 7, msg_room_name = Some ''Chat Room 1'', msg_username = ''dave'',
            msg_content = ''hi'', msg_timestamp = ''t'', msg_is_mod = False,
            msg_is_system = False\<rparr>) [] = []
   \<and> distinct (map msg_id (fold (handleNewMessage ''Chat Room 1'' True)
        [Some \<lparr>msg_id = IdNum 7, msg_room_name = Some ''Chat Room 1'', msg_username = ''dave'',
            msg_content = ''hi'', msg_timestamp = ''t'', msg_is_mod = False,
            msg_is_system = False\<rparr>,
         Some \<lparr>msg_id = IdNum 7, msg_room_name = Some ''Chat Room 1'', msg_username = ''dave'',
            msg_content = ''hi'', msg_timestamp = ''t'', msg_is_mod = False,
            msg_is_system = False\<rparr>] []))
   \<and> \<not> isl (handlePrivateMessage (Some \<lparr>acc_id = 2, acc_username = ''dave''\<rparr>)
        (Some \<lparr>acc_id = 1, acc_username = ''carol''\<rparr>)
        (Some \<lparr>pm_id = IdNum 9, pm_from = Some ''dave'', pm_to = Some ''carol'',
               pm_content = ''yo'', pm_timestamp = ''t'', pm_is_mod = None\<rparr>) [])
   \<and> map prv_id (projr (handlePrivateMessage (Some \<lparr>acc_id = 2, acc_username = ''dave''\<rparr>)
        (Some \<lparr>acc_id = 1, acc_username = ''carol''\<rparr>)
        (Some \<lparr>pm_id = IdNum 9, pm_from = Some ''dave'', pm_to = Some ''carol'',
               pm_content = ''yo'', pm_timestamp = ''t'', pm_is_mod = None\<rparr>) [])) = [IdNum 9]
   \<and> distinct (map prv_id (projr (handlePrivateMessage (Some \<lparr>acc_id = 2, acc_username = ''dave''\<rparr>)
        (Some \<lparr>acc_id = 1, acc_username = ''carol''\<rparr>)
        (Some \<lparr>pm_id = IdNum 9, pm_from = Some ''dave'', pm_to = Some ''carol'',
               pm_content = ''yo'', pm_timestamp = ''t'', pm_is_mod = None\<rparr>) [])))"
proof -
  let ?m = "\<lparr>msg_id = IdNum 7, msg_room_name = Some ''Chat Room 1'', msg_username = ''dave'',
            msg_content = ''hi'', msg_timestamp = ''t'', msg_is_mod = False,
            msg_is_system = False\<rparr>"
  let ?f = "\<lparr>acc_id = 2, acc_username = ''dave''\<rparr>"
  let ?c = "\<lparr>acc_id = 1, acc_username = ''carol''\<rparr>"
  let ?p = "\<lparr>pm_id = IdNum 9, pm_from = Some ''dave'', pm_to = Some ''carol'',
               pm_content = ''yo'', pm_timestamp = ''t'', pm_is_mod = None\<rparr>"
  note t = messages_deduplicated [where m = ?m and r = "''Chat Room 1''" and prev = "[]"
      and mounted = True and msgs = "[Some ?m, Some ?m]" and p = ?p and friend = "Some ?f"
      and me = ?c and pprev = "[]" and usr = "Some ?c" and pmsg = "Some ?p"]
  note t2 = messages_deduplicated [where m = ?m and r = "''Chat Room 2''" and prev = "[]"
      and mounted = True]
  have h1: "msg_room_name ?m = Some ''Chat Room 1'' \<and> ''Chat Room 1'' \<noteq> []" by simp
  have h1': "msg_room_name ?m \<noteq> Some ''Chat Room 2'' \<or> \<not> True" by simp
  have h2: "distinct (map msg_id ([] :: message list))" by simp
  have h3: "(pm_from ?p = map_option acc_username (Some ?f) \<and> pm_to ?p = Some (acc_username ?c))
      \<or> (pm_to ?p = map_option acc_username (Some ?f) \<and> pm_from ?p = Some (acc_username ?c))"
    by simp
  have h4: "distinct (map prv_id ([] :: private_message list))" by simp
  have a: "handleNewMessage ''Chat Room 1'' True (Some ?m) [] = [?m]"
    using t h1 by simp
  have a': "handleNewMessage ''Chat Room 2'' True (Some ?m) [] = []"
    using t2 h1' by blast
  have b: "distinct (map msg_id (fold (handleNewMessage ''Chat Room 1'' True)
      [Some ?m, Some ?m] []))"
    using t h2 by blast
  have c: "\<not> isl (handlePrivateMessage (Some ?f) (Some ?c) (Some ?p) [])"
    using t h3 by blast
  have d: "map prv_id (projr (handlePrivateMessage (Some ?f) (Some ?c) (Some ?p) [])) = [IdNum 9]"
    using t h3 by simp
  have e: "distinct (map prv_id (projr (handlePrivateMessage (Some ?f) (Some ?c) (Some ?p) [])))"
    using t h4 c by blast
  from a a' b c d e show ?thesis by blast
qed

subsection \<open>C8: roster snapshots of any shape\<close>

text \<open>
  C8: the \<^verbatim>\<open>online_users\<close> handler is total and tolerant of the payload's shape. A raw
  array replaces the roster wholesale; an object that wraps the same array under
  \<^verbatim>\<open>users\<close> gives the identical state; every other payload (neither an array nor a
  truthy value whose \<^verbatim>\<open>users\<close> property is an array), \<^verbatim>\<open>null\<close> among them, gives the empty
  roster and one logged warning; and no payload makes the body of the handler throw.
\<close>

theorem online_users_shape_tolerant:
  "on_online_users (JArr us) s = s\<lparr>onlineUsers := us\<rparr>
   \<and> (map_of (rev kvs) ''users'' = Some (JArr us) \<longrightarrow>
        on_online_users (JObj kvs) s = on_online_users (JArr us) s)
   \<and> (\<not> isArray d \<and> \<not> (truthy d \<and> \<not> isl (get_prop d ''users'')
                          \<and> isArray (projr (get_prop d ''users''))) \<longrightarrow>
        on_online_users d s =
          s\<lparr>onlineUsers := [], logs := logs s @ [Warn ''online_users payload format unexpected'']\<rparr>)
   \<and> on_online_users JNull s =
        s\<lparr>onlineUsers := [], logs := logs s @ [Warn ''online_users payload format unexpected'']\<rparr>
   \<and> \<not> isl (online_users_try d s)"
proof -
  have a: "on_online_users (JArr us) s = s\<lparr>onlineUsers := us\<rparr>"
    by (simp add: on_online_users_def online_users_try_def setOnlineUsers_def)
  have b: "map_of (rev kvs) ''users'' = Some (JArr us) \<longrightarrow>
        on_online_users (JObj kvs) s = on_online_users (JArr us) s"
    by (simp add: on_online_users_def online_users_try_def setOnlineUsers_def)
  have c: "\<not> isArray d \<and> \<not> (truthy d \<and> \<not> isl (get_prop d ''users'')
                          \<and> isArray (projr (get_prop d ''users''))) \<longrightarrow>
        on_online_users d s =
          s\<lparr>onlineUsers := [], logs := logs s @ [Warn ''online_users payload format unexpected'']\<rparr>"
  proof (cases "truthy d")
    case True
    then obtain v where "get_prop d ''users'' = Inr v" using truthy_get_prop by blast
    then show ?thesis using True
      by (simp add: on_online_users_def online_users_try_def setOnlineUsers_def console_def)
  next
    case False
    then show ?thesis
      by (simp add: on_online_users_def online_users_try_def setOnlineUsers_def console_def)
  qed
  have d: "on_online_users JNull s =
        s\<lparr>onlineUsers := [], logs := logs s @ [Warn ''online_users payload format unexpected'']\<rparr>"
    by (simp add: on_online_users_def online_users_try_def setOnlineUsers_def console_def)
  have e: "\<not> isl (online_users_try d s)"
  proof (cases "truthy d")
    case True
    then obtain v where "get_prop d ''users'' = Inr v" using truthy_get_prop by blast
    then show ?thesis by (simp add: online_users_try_def)
  next
    case False
    then show ?thesis by (simp add: online_users_try_def)
  qed
  from a b c d e show ?thesis by blast
qed

theorem online_users_shape_tolerant_witness:
  "onlineUsers (on_online_users (JObj [(''users'', JArr [JObj [(''username'', JStr ''bob'')]])])
      (mounted_state ''carol'')) = [JObj [(''username'', JStr ''bob'')]]
   \<and> onlineUsers (on_online_users (JArr [JObj [(''username'', JStr ''bob'')]])
      (mounted_state ''carol'')) = [JObj [(''username'', JStr ''bob'')]]
   \<and> onlineUsers (on_online_users (JObj [(''count'', JNum 1)]) (mounted_state ''carol'')) = []
   \<and> logs (on_online_users (JObj [(''count'', JNum 1)]) (mounted_state ''carol'')) =
       [Warn ''online_users payload format unexpected'']"
proof -
  let ?bob = "[JObj [(''username'', JStr ''bob'')]]"
  have h1: "map_of (rev [(''users'', JArr ?bob)]) ''users'' = Some (JArr ?bob)" by simp
  have h2: "\<not> isArray (JObj [(''count'', JNum 1)])
      \<and> \<not> (truthy (JObj [(''count'', JNum 1)])
            \<and> \<not> isl (get_prop (JObj [(''count'', JNum 1)]) ''users'')
            \<and> isArray (projr (get_prop (JObj [(''count'', JNum 1)]) ''users'')))"
    by simp
  have e: "logs (mounted_state ''carol'') = []" by (simp add: mounted_state_def)
  note t = online_users_shape_tolerant [where us = ?bob and s = "mounted_state ''carol''"
      and kvs = "[(''users'', JArr ?bob)]" and d = "JObj [(''count'', JNum 1)]"]
  have a: "on_online_users (JArr ?bob) (mounted_state ''carol'') =
      (mounted_state ''carol'')\<lparr>onlineUsers := ?bob\<rparr>"
    using t by blast
  have b: "on_online_users (JObj [(''users'', JArr ?bob)]) (mounted_state ''carol'') =
      on_online_users (JArr ?bob) (mounted_state ''carol'')"
    using t h1 by blast
  have c: "on_online_users (JObj [(''count'', JNum 1)]) (mounted_state ''carol'') =
      (mounted_state ''carol'')\<lparr>onlineUsers := [],
        logs := logs (mounted_state ''carol'') @ [Warn ''online_users payload format unexpected'']\<rparr>"
    using t h2 by blast
  show ?thesis by (simp add: a b c e)
qed

subsection \<open>C9: the result of sending a room message\<close>

text \<open>
  C9 says that every call of \<^verbatim>\<open>sendMessage\<close> that does not send returns false with a
  user notification. A call with a missing room name on a live, initialized connection
  returns false after a console warning only: no toast is shown.
\<close>

theorem sendMessage_result_counterexample:
  "sendMessage [] (Some [104, 105]) (on_connect (mounted_state ''carol'')) =
     Inr (False, console (Warn ''Cannot send message - missing requirements'')
                   (on_connect (mounted_state ''carol'')))"
  by (simp add: sendMessage_def on_connect_def mounted_state_def conn_ops Let_def trim_def
      is_space_def)

text \<open>
  C9 as amended: every call \<^verbatim>\<open>sendMessage(room, content)\<close> with a string content returns
  synchronously and does not throw. It returns true exactly when there is a socket and
  a user, the trimmed content and the room name are non-empty, and the connection is
  connected and initialized; it then emits exactly one \<^verbatim>\<open>send_message\<close> event with the
  user's name, the trimmed content and the room name, and changes nothing else: no
  toast, no warning. Otherwise it returns false, emits nothing and writes one console
  warning; it shows a toast when the connection is not connected, else when it is not
  initialized, else when the trimmed content is empty, and no toast when the room name
  alone, the socket or the user is missing; nothing else changes.
\<close>

theorem sendMessage_result:
  "\<not> isl (sendMessage roomName (Some c) s)
   \<and> (fst (projr (sendMessage roomName (Some c) s)) \<longleftrightarrow>
        socket s \<and> user s \<noteq> None \<and> trim c \<noteq> [] \<and> roomName \<noteq> []
        \<and> connected s \<and> socketInitialized s)
   \<and> (fst (projr (sendMessage roomName (Some c) s)) \<longrightarrow>
        snd (projr (sendMessage roomName (Some c) s)) =
          s\<lparr>emitted := emitted s @ [SendMessage (the (user s)) (trim c) roomName]\<rparr>)
   \<and> (\<not> fst (projr (sendMessage roomName (Some c) s)) \<longrightarrow>
        snd (projr (sendMessage roomName (Some c) s)) =
          s\<lparr>logs := logs s @ [Warn ''Cannot send message - missing requirements''],
            toasts := toasts s @
              (if \<not> connected s then [ToastError ''Not connected to server'']
               else if \<not> socketInitialized s then
                 [ToastError ''Socket not initialized. Please refresh the page.'']
               else if trim c = [] then [ToastError ''Message cannot be empty'']
               else [])\<rparr>)"
  by (simp add: sendMessage_def conn_ops Let_def)

text \<open>
  Carol, connected: the content "  hi " (two spaces, "hi", a space) is sent trimmed to
  "hi" and nothing is logged; a content of one no-break space (U+00A0) trims to the
  empty string, so the call returns false, emits nothing, warns on the console and
  shows "Message cannot be empty".
\<close>

theorem sendMessage_result_witness:
  "trim [32, 32, 104, 105, 32] = [104, 105]
   \<and> trim [160] = []
   \<and> fst (projr (sendMessage ''Chat Room 1'' (Some [32, 32, 104, 105, 32])
        (on_connect (mounted_state ''carol''))))
   \<and> emitted (snd (projr (sendMessage ''Chat Room 1'' (Some [32, 32, 104, 105, 32])
        (on_connect (mounted_state ''carol''))))) =
       [SendMessage ''carol'' [104, 105] ''Chat Room 1'']
   \<and> logs (snd (projr (sendMessage ''Chat Room 1'' (Some [32, 32, 104, 105, 32])
        (on_connect (mounted_state ''carol''))))) = []
   \<and> \<not> fst (projr (sendMessage ''Chat Room 1'' (Some [160])
        (on_connect (mounted_state ''carol''))))
   \<and> emitted (snd (projr (sendMessage ''Chat Room 1'' (Some [160])
        (on_connect (mounted_state ''carol''))))) = []
   \<and> logs (snd (projr (sendMessage ''Chat Room 1'' (Some [160])
        (on_connect (mounted_state ''carol''))))) =
       [Warn ''Cannot send message - missing requirements'']
   \<and> toasts (snd (projr (sendMessage ''Chat Room 1'' (Some [160])
        (on_connect (mounted_state ''carol''))))) =
       [ToastSuccess ''Connected to ChatHub!'', ToastError ''Message cannot be empty'']"
proof -
  let ?s0 = "on_connect (mounted_state ''carol'')"
  have h: "socket ?s0" "user ?s0 = Some ''carol''" "connected ?s0" "socketInitialized ?s0"
    "emitted ?s0 = []" "toasts ?s0 = [ToastSuccess ''Connected to ChatHub!'']"
    "logs ?s0 = []"
    by (simp_all add: on_connect_def mounted_state_def show_toast_def)
  have yes: "fst (projr (sendMessage ''Chat Room 1'' (Some [32, 32, 104, 105, 32]) ?s0))"
    using sendMessage_result [of "''Chat Room 1''" "[32, 32, 104, 105, 32]" ?s0]
    by (simp add: h trim_examples)
  have sent: "snd (projr (sendMessage ''Chat Room 1'' (Some [32, 32, 104, 105, 32]) ?s0)) =
      ?s0\<lparr>emitted := emitted ?s0 @ [SendMessage ''carol'' [104, 105] ''Chat Room 1'']\<rparr>"
    using sendMessage_result [of "''Chat Room 1''" "[32, 32, 104, 105, 32]" ?s0] yes
    by (simp add: h trim_examples)
  have no: "\<not> fst (projr (sendMessage ''Chat Room 1'' (Some [160]) ?s0))"
    using sendMessage_result [of "''Chat Room 1''" "[160]" ?s0]
    by (simp add: h trim_examples)
  have refused: "snd (projr (sendMessage ''Chat Room 1'' (Some [160]) ?s0)) =
      ?s0\<lparr>logs := logs ?s0 @ [Warn ''Cannot send message - missing requirements''],
          toasts := toasts ?s0 @ [ToastError ''Message cannot be empty'']\<rparr>"
    using sendMessage_result [of "''Chat Room 1''" "[160]" ?s0] no
    by (simp add: h trim_examples)
  show ?thesis
    using yes no by (simp add: sent refused h trim_examples)
qed

subsection \<open>C10: the user's own and anonymous join and leave events\<close>

text \<open>
  C10: a \<^verbatim>\<open>user_joined\<close> or \<^verbatim>\<open>user_left\<close> event that carries the signed-in user's own
  username, or no username (no payload, no \<^verbatim>\<open>username\<close> field, or an empty one), changes
  nothing: no notification is shown and the tracker of joined users is not modified.
\<close>

theorem own_or_anonymous_events_ignored:
  "data = NoData \<or> data = UserData None \<or> data = UserData (Some []) \<or> data = UserData (Some me)
   \<Longrightarrow> on_user_joined me data s = s \<and> on_user_left me data s = s"
  by (auto simp add: on_user_joined_def on_user_left_def)

theorem own_or_anonymous_events_ignored_witness:
  "on_user_joined ''carol'' (UserData (Some ''carol'')) (mounted_state ''carol'')
     = mounted_state ''carol''
   \<and> on_user_left ''carol'' (UserData None) (mounted_state ''carol'') = mounted_state ''carol''"
  using own_or_anonymous_events_ignored [of "UserData (Some ''carol'')" "''carol''"
      "mounted_state ''carol''"]
    own_or_anonymous_events_ignored [of "UserData None" "''carol''" "mounted_state ''carol''"]
  by simp

end
